theory Spec2Isabelle
  imports Main "HOL-Library.Word" "HOL-Library.Char_ord" "HOL-Library.List_Lexorder"
begin

section \<open>The geolocation service of the management server\<close>

text \<open>
  A shallow embedding of \<^verbatim>\<open>management/server/geolocation/geolocation.go\<close>.
  Go strings are \<open>string\<close> (byte lists, compared bytewise as Go compares them),
  \<^verbatim>\<open>[]byte\<close> is a list of 8-bit words, a returned \<^verbatim>\<open>error\<close> is a value of
  the datatype \<open>error\<close>, and a run-time panic is the outcome \<open>Panics\<close>.
\<close>

subsection \<open>Errors, panics and outcomes\<close>

datatype error =
    DoesNotExist string
  | CouldNotBeOpened string error
  | DatabaseDoesNotExist
  | ClosedDatabase
  | OSError string

datatype panic = IndexOutOfRange | CloseOfClosedChannel | NilDereference

datatype 'a outcome = Returns 'a | Panics panic

subsection \<open>Strings and paths (Go's strings and path packages)\<close>

text \<open>
  \<^verbatim>\<open>strings.SplitN(s, sep, 2)\<close> for a one-byte separator: the text before the first
  separator and the text after it, or \<open>s\<close> alone when it holds no separator.
\<close>

definition SplitN2 :: "string \<Rightarrow> char \<Rightarrow> string list" where
  "SplitN2 s sep =
     (if sep \<in> set s
      then [takeWhile (\<lambda>c. c \<noteq> sep) s, tl (dropWhile (\<lambda>c. c \<noteq> sep) s)]
      else [s])"

text \<open>
  \<^verbatim>\<open>strings.Replace(s, old, new, 1)\<close> for a one-byte \<open>old\<close>: the first occurrence is
  replaced, and \<open>s\<close> is returned as it is when there is none.
\<close>

definition Replace1 :: "string \<Rightarrow> char \<Rightarrow> string \<Rightarrow> string" where
  "Replace1 s old new =
     (if old \<in> set s
      then takeWhile (\<lambda>c. c \<noteq> old) s @ new @ tl (dropWhile (\<lambda>c. c \<noteq> old) s)
      else s)"

text \<open>
  \<^verbatim>\<open>path.Base\<close>: the empty path gives \<open>.\<close>, trailing slashes are stripped, the
  text after the last slash is kept, and a path of slashes only gives \<open>/\<close>.
\<close>

definition Base :: "string \<Rightarrow> string" where
  "Base p =
     (if p = [] then ''.''
      else
        (let q = rev (dropWhile (\<lambda>c. c = CHR ''/'') (rev p));
             r = rev (takeWhile (\<lambda>c. c \<noteq> CHR ''/'') (rev q))
         in if r = [] then ''/'' else r))"

text \<open>
  \<^verbatim>\<open>filepath.Split\<close>: the directory part runs up to and including the last slash,
  the file part is the rest.
\<close>

definition Split :: "string \<Rightarrow> string \<times> string" where
  "Split p =
     (let file = rev (takeWhile (\<lambda>c. c \<noteq> CHR ''/'') (rev p))
      in (take (length p - length file) p, file))"

text \<open>
  Indexing a slice: Go panics with an index out of range where HOL's \<open>!\<close> is
  unspecified.
\<close>

definition index_at :: "'a list \<Rightarrow> nat \<Rightarrow> 'a outcome" where
  "index_at xs i = (if i < length xs then Returns (xs ! i) else Panics IndexOutOfRange)"

subsection \<open>The file system (Go's os and path/filepath packages)\<close>

text \<open>
  The data directory as the service sees it: the paths of the existing files, each
  once, and the paths whose removal the operating system refuses.
\<close>

record filesystem =
  files :: "string list"
  undeletable :: "string list"

text \<open>
  \<^verbatim>\<open>filepath.Match\<close> for the patterns of this package, \<^verbatim>\<open>mmdbPattern\<close> and
  \<^verbatim>\<open>geonamesdbPattern\<close>: literal bytes and \<open>*\<close>, which matches any run of bytes
  other than the separator.
\<close>

fun Match :: "string \<Rightarrow> string \<Rightarrow> bool" where
  "Match [] [] = True"
| "Match [] (c # cs) = False"
| "Match (p # ps) [] = (p = CHR ''*'' \<and> Match ps [])"
| "Match (p # ps) (c # cs) =
     (if p = CHR ''*''
      then Match ps (c # cs) \<or> (c \<noteq> CHR ''/'' \<and> Match (p # ps) cs)
      else p = c \<and> Match ps cs)"

text \<open>The names of the entries of directory \<open>dir\<close> (\<open>dir\<close> ends with its slash).\<close>

definition Readdirnames :: "string \<Rightarrow> filesystem \<Rightarrow> string list" where
  "Readdirnames dir fs =
     map (drop (length dir))
       (filter (\<lambda>p. take (length dir) p = dir \<and> drop (length dir) p \<noteq> []
                    \<and> CHR ''/'' \<notin> set (drop (length dir) p))
          (files fs))"

text \<open>
  \<^verbatim>\<open>filepath.Glob\<close> for a pattern whose directory part is literal, as
  \<^verbatim>\<open>path.Join(dataDir, mmdbPattern)\<close> is: the names of the directory are read, sorted
  with \<^verbatim>\<open>sort.Strings\<close>, and each name that matches the file part is returned joined
  to the directory.
\<close>

definition Glob :: "string \<Rightarrow> filesystem \<Rightarrow> string list" where
  "Glob pattern fs =
     (let (dir, file) = Split pattern
      in map (\<lambda>n. dir @ n) (filter (Match file) (sort (Readdirnames dir fs))))"


subsection \<open>Selecting and cleaning up the versioned database files\<close>

definition getExistingDatabases :: "string \<Rightarrow> filesystem \<Rightarrow> string list" where
  "getExistingDatabases pattern fs = Glob pattern fs"

text \<open>
  \<^verbatim>\<open>getDatabaseFilename\<close>. The helper \<^verbatim>\<open>getFilenameFromURL\<close> lives in another file
  of the package and is a parameter here: \<open>Inl\<close> is its error, \<open>Inr\<close> the remote
  file name.
\<close>

definition getDatabaseFilename ::
  "(string \<Rightarrow> error + string) \<Rightarrow> string \<Rightarrow> string \<Rightarrow> bool \<Rightarrow> filesystem
     \<Rightarrow> (error + string) outcome" where
  "getDatabaseFilename getFilenameFromURL databaseURL filenamePattern autoUpdate fs =
     (let (filename, err) =
            (if autoUpdate
             then (case getFilenameFromURL databaseURL of
                     Inl e \<Rightarrow> ([], Some e)
                   | Inr f \<Rightarrow> (f, None))
             else ([], None))
      in if err \<noteq> None \<or> \<not> autoUpdate
         then
           (let files = getExistingDatabases filenamePattern fs
            in if length files < 1 then Returns (Inl DatabaseDoesNotExist)
               else Returns (Inr (Base (files ! (length files - 1)))))
         else
           (case index_at (SplitN2 filename (CHR ''.'')) 0 of
              Panics pn \<Rightarrow> Panics pn
            | Returns basename \<Rightarrow>
                (case index_at (SplitN2 basename (CHR ''_'')) 1 of
                   Panics pn \<Rightarrow> Panics pn
                 | Returns date \<Rightarrow>
                     Returns (Inr (Base (Replace1 filenamePattern (CHR ''*'') date))))))"





subsection \<open>The metadata facade\<close>

record City =
  GeoNameID :: int
  CityName :: string

record Country =
  CountryISOCode :: string
  CountryName :: string

text \<open>The two range loops: a row is appended when its name is not empty.\<close>

fun countries_loop :: "Country list \<Rightarrow> Country list \<Rightarrow> Country list" where
  "countries_loop countries [] = countries"
| "countries_loop countries (country # rest) =
     (if CountryName country \<noteq> [] then countries_loop (countries @ [country]) rest
      else countries_loop countries rest)"

fun cities_loop :: "City list \<Rightarrow> City list \<Rightarrow> City list" where
  "cities_loop cities [] = cities"
| "cities_loop cities (city # rest) =
     (if CityName city \<noteq> [] then cities_loop (cities @ [city]) rest
      else cities_loop cities rest)"

text \<open>
  The store (\<^verbatim>\<open>SqliteStore\<close>) is a collaborator outside this file: what its query
  returned is the argument.
\<close>

definition GetAllCountries :: "error + Country list \<Rightarrow> error + Country list" where
  "GetAllCountries store_result =
     (case store_result of
        Inl err \<Rightarrow> Inl err
      | Inr allCountries \<Rightarrow> Inr (countries_loop [] allCountries))"

definition GetCitiesByCountry :: "(string \<Rightarrow> error + City list) \<Rightarrow> string \<Rightarrow> error + City list" where
  "GetCitiesByCountry store_query countryISOCode =
     (case store_query countryISOCode of
        Inl err \<Rightarrow> Inl err
      | Inr allCities \<Rightarrow> Inr (cities_loop [] allCities))"

subsection \<open>The service state\<close>

type_synonym bytes = "8 word list"

text \<open>The result of a lookup, \<^verbatim>\<open>Record\<close>, with its nested structs flattened.\<close>

record Record =
  City_GeonameID :: nat
  City_Names_En :: string
  Continent_GeonameID :: nat
  Continent_Code :: string
  Country_GeonameID :: nat
  Country_ISOCode :: string

definition zero_Record :: Record where
  "zero_Record =
     \<lparr>City_GeonameID = 0, City_Names_En = [], Continent_GeonameID = 0, Continent_Code = [],
      Country_GeonameID = 0, Country_ISOCode = []\<rparr>"

text \<open>
  A \<^verbatim>\<open>maxminddb.Reader\<close> (a library outside the repository): whether it has been
  closed, and the records of the file it was opened on. The service holds a pointer to
  it, so the readers live in a heap, a list indexed by address.
\<close>

record Reader =
  rd_closed :: bool
  rd_data :: "(bytes \<times> Record) list"

datatype chan = ChanOpen | ChanClosed

text \<open>
  The struct \<^verbatim>\<open>Geolocation\<close>. \<open>db\<close> and \<open>locationDB\<close> are pointers (\<open>None\<close> is
  nil), \<open>stopCh\<close> is the state of the channel; the lock \<open>mux\<close> shows in the event
  traces below, and the reload interval is left out.
\<close>

record Geolocation =
  mmdbPath :: string
  sha256sum :: bytes
  db :: "nat option"
  locationDB :: "nat option"
  stopCh :: chan

record state = Geolocation +
  readers :: "Reader list"

text \<open>What a goroutine does, in order: the calls on the lock, the files and the readers.\<close>

datatype event =
    EvLock | EvUnlock | EvRLock | EvRUnlock
  | EvHash string | EvSleep | EvStat string | EvOpen string
  | EvReaderClose nat | EvReaderLookup nat
  | EvSetDB | EvSetSum | EvStoreReload | EvLog

definition deref :: "Reader list \<Rightarrow> nat \<Rightarrow> Reader option" where
  "deref rs h = (if h < length rs then Some (rs ! h) else None)"

text \<open>
  \<^verbatim>\<open>Reader.Lookup\<close>: a closed reader returns an error; an address the file does not
  cover leaves the record at its zero value and returns no error.
\<close>

definition reader_Lookup :: "Reader \<Rightarrow> bytes \<Rightarrow> error + Record" where
  "reader_Lookup r ip =
     (if rd_closed r then Inl ClosedDatabase
      else (case map_of (rd_data r) ip of None \<Rightarrow> Inr zero_Record | Some rec \<Rightarrow> Inr rec))"

text \<open>\<^verbatim>\<open>Reader.Close\<close> releases the reader, whatever it returns.\<close>

definition reader_Close :: "nat \<Rightarrow> Reader list \<Rightarrow> Reader list" where
  "reader_Close h rs = (if h < length rs then rs[h := (rs ! h)\<lparr>rd_closed := True\<rparr>] else rs)"

subsection \<open>Lookup and Stop\<close>

definition Lookup :: "state \<Rightarrow> bytes \<Rightarrow> (error + Record) outcome \<times> event list" where
  "Lookup gl ip =
     (case db gl of
        None \<Rightarrow> (Panics NilDereference, [EvRLock, EvRUnlock])
      | Some h \<Rightarrow>
          (case deref (readers gl) h of
             None \<Rightarrow> (Panics NilDereference, [EvRLock, EvRUnlock])
           | Some r \<Rightarrow>
               (case reader_Lookup r ip of
                  Inl err \<Rightarrow> (Returns (Inl err), [EvRLock, EvReaderLookup h, EvRUnlock])
                | Inr record \<Rightarrow> (Returns (Inr record), [EvRLock, EvReaderLookup h, EvRUnlock]))))"

text \<open>
  What the two close calls of \<^verbatim>\<open>Stop\<close> return (\<open>None\<close> is nil). The store's
  \<^verbatim>\<open>close\<close> is outside this file.
\<close>

record stop_io =
  io_db_close :: "error option"
  io_store_close :: "error option"

definition Stop :: "stop_io \<Rightarrow> state \<Rightarrow> (error option \<times> state) outcome" where
  "Stop io gl =
     (if stopCh gl = ChanClosed then Panics CloseOfClosedChannel
      else
        (let gl1 = gl\<lparr>stopCh := ChanClosed\<rparr>
         in case db gl1 of
              Some h \<Rightarrow>
                (let gl2 = gl1\<lparr>readers := reader_Close h (readers gl1)\<rparr>
                 in case io_db_close io of
                      Some err \<Rightarrow> Returns (Some err, gl2)
                    | None \<Rightarrow>
                        (if locationDB gl2 \<noteq> None
                         then (case io_store_close io of
                                 Some err \<Rightarrow> Returns (Some err, gl2)
                               | None \<Rightarrow> Returns (None, gl2))
                         else Returns (None, gl2)))
            | None \<Rightarrow>
                (if locationDB gl1 \<noteq> None
                 then (case io_store_close io of
                         Some err \<Rightarrow> Returns (Some err, gl1)
                       | None \<Rightarrow> Returns (None, gl1))
                 else Returns (None, gl1))))"

subsection \<open>The reload loop\<close>

datatype stat_result = StatOk | StatNotExist | StatError error

text \<open>
  What the calls of one tick return, in the order the tick makes them: the store's
  reload, the first and the second \<^verbatim>\<open>calculateFileSHA256\<close>, the close of the old
  reader, \<^verbatim>\<open>os.Stat\<close> and \<^verbatim>\<open>maxminddb.Open\<close>. A call the tick does not reach
  leaves its field unread.
\<close>

record tick_io =
  io_store_reload :: "error option"
  io_sha1 :: "error + bytes"
  io_sha2 :: "error + bytes"
  io_close :: "error option"
  io_stat :: stat_result
  io_open :: "error + (bytes \<times> Record) list"

definition openDB ::
  "string \<Rightarrow> stat_result \<Rightarrow> error + (bytes \<times> Record) list \<Rightarrow> Reader list
     \<Rightarrow> (error + nat) \<times> Reader list \<times> event list" where
  "openDB path st op rs =
     (case st of
        StatNotExist \<Rightarrow> (Inl (DoesNotExist path), rs, [EvStat path])
      | StatError err \<Rightarrow> (Inl err, rs, [EvStat path])
      | StatOk \<Rightarrow>
          (case op of
             Inl err \<Rightarrow> (Inl (CouldNotBeOpened path err), rs, [EvStat path, EvOpen path])
           | Inr d \<Rightarrow>
               (Inr (length rs), rs @ [\<lparr>rd_closed = False, rd_data = d\<rparr>],
                [EvStat path, EvOpen path])))"

definition reload :: "tick_io \<Rightarrow> bytes \<Rightarrow> state \<Rightarrow> (error option \<times> state \<times> event list) outcome" where
  "reload io newSha256sum gl =
     (case db gl of
        None \<Rightarrow> Panics NilDereference
      | Some h \<Rightarrow>
          (let gl1 = gl\<lparr>readers := reader_Close h (readers gl)\<rparr>
           in case io_close io of
                Some err \<Rightarrow> Returns (Some err, gl1, [EvLock, EvLog, EvReaderClose h, EvUnlock])
              | None \<Rightarrow>
                  (case openDB (mmdbPath gl1) (io_stat io) (io_open io) (readers gl1) of
                     (Inl err, rs, evs) \<Rightarrow>
                       Returns (Some err, gl1, [EvLock, EvLog, EvReaderClose h] @ evs @ [EvUnlock])
                   | (Inr h', rs, evs) \<Rightarrow>
                       Returns (None, gl1\<lparr>sha256sum := newSha256sum, db := Some h', readers := rs\<rparr>,
                         [EvLock, EvLog, EvReaderClose h] @ evs
                           @ [EvSetDB, EvSetSum, EvLog, EvUnlock]))))"

text \<open>The body of the timer case of \<^verbatim>\<open>reloader\<close>: one check of the file.\<close>

definition tick :: "tick_io \<Rightarrow> state \<Rightarrow> (state \<times> event list) outcome" where
  "tick io gl =
     (let ev0 = EvStoreReload # (if io_store_reload io \<noteq> None then [EvLog] else [])
      in case io_sha1 io of
           Inl err \<Rightarrow> Returns (gl, ev0 @ [EvHash (mmdbPath gl), EvLog])
         | Inr newSha256sum1 \<Rightarrow>
             (if sha256sum gl \<noteq> newSha256sum1
              then
                (case io_sha2 io of
                   Inl err \<Rightarrow>
                     Returns (gl, ev0 @ [EvHash (mmdbPath gl), EvSleep, EvHash (mmdbPath gl), EvLog])
                 | Inr newSha256sum2 \<Rightarrow>
                     (if newSha256sum1 \<noteq> newSha256sum2
                      then Returns (gl,
                             ev0 @ [EvHash (mmdbPath gl), EvSleep, EvHash (mmdbPath gl), EvLog])
                      else
                        (case reload io newSha256sum2 gl of
                           Panics pn \<Rightarrow> Panics pn
                         | Returns (err, gl', evs) \<Rightarrow>
                             Returns (gl',
                               ev0 @ [EvHash (mmdbPath gl), EvSleep, EvHash (mmdbPath gl)] @ evs
                                 @ (if err \<noteq> None then [EvLog] else [])))))
              else Returns (gl, ev0 @ [EvHash (mmdbPath gl), EvLog])))"

text \<open>
  \<^verbatim>\<open>reloader\<close>: each round of the loop waits in \<^verbatim>\<open>select\<close>; the schedule says
  which case fires, the stop channel or the timer with the results of that tick.
\<close>

datatype wake = StopSignalled | TimerFired tick_io

fun reloader :: "wake list \<Rightarrow> state \<Rightarrow> (state \<times> event list) outcome" where
  "reloader [] gl = Returns (gl, [])"
| "reloader (StopSignalled # ws) gl = Returns (gl, [])"
| "reloader (TimerFired io # ws) gl =
     (case tick io gl of
        Panics pn \<Rightarrow> Panics pn
      | Returns (gl', evs) \<Rightarrow>
          (case reloader ws gl' of
             Panics pn \<Rightarrow> Panics pn
           | Returns (gl'', evs') \<Rightarrow> Returns (gl'', evs @ evs')))"

text \<open>The events of a trace that happen while the writer lock is held.\<close>

fun locked_events :: "bool \<Rightarrow> event list \<Rightarrow> event list" where
  "locked_events held [] = []"
| "locked_events held (EvLock # es) = locked_events True es"
| "locked_events held (EvUnlock # es) = locked_events False es"
| "locked_events held (e # es) = (if held then e # locked_events held es else locked_events held es)"

fun file_io :: "event \<Rightarrow> bool" where
  "file_io (EvHash p) = True"
| "file_io (EvStat p) = True"
| "file_io (EvOpen p) = True"
| "file_io e = False"

text \<open>
  Whether a tick saw a stable change: the first fingerprint was computed and differs
  from the recorded one, and the second was computed and equals the first.
\<close>

definition stable_change :: "tick_io \<Rightarrow> state \<Rightarrow> bool" where
  "stable_change io gl \<longleftrightarrow>
     (case io_sha1 io of
        Inl e \<Rightarrow> False
      | Inr f1 \<Rightarrow> f1 \<noteq> sha256sum gl \<and> io_sha2 io = Inr f1)"

subsection \<open>A running service, for the examples\<close>

definition example_service :: state where
  "example_service =
     \<lparr>mmdbPath = ''/var/lib/netbird/GeoLite2-City-maxmind_20240101.mmdb'',
      sha256sum = [1], db = Some 0, locationDB = Some 0, stopCh = ChanOpen,
      readers =
        [\<lparr>rd_closed = False,
          rd_data = [([10, 0, 0, 1], zero_Record\<lparr>Country_ISOCode := ''DE''\<rparr>)]\<rparr>]\<rparr>"

definition example_tick :: tick_io where
  "example_tick =
     \<lparr>io_store_reload = None, io_sha1 = Inr [2], io_sha2 = Inr [2], io_close = None,
      io_stat = StatOk,
      io_open = Inr [([10, 0, 0, 1], zero_Record\<lparr>Country_ISOCode := ''NL''\<rparr>)]\<rparr>"

definition example_stop :: stop_io where
  "example_stop = \<lparr>io_db_close = None, io_store_close = None\<rparr>"

text \<open>The example service with its reader closed, and after \<^verbatim>\<open>Stop\<close>.\<close>

definition example_closed :: state where
  "example_closed =
     example_service\<lparr>readers :=
       [\<lparr>rd_closed = True,
         rd_data = [([10, 0, 0, 1], zero_Record\<lparr>Country_ISOCode := ''DE''\<rparr>)]\<rparr>]\<rparr>"

definition example_stopped :: state where
  "example_stopped = example_closed\<lparr>stopCh := ChanClosed\<rparr>"

definition example_dir :: filesystem where
  "example_dir =
     \<lparr>files = [''/data/GeoLite2-City-maxmind_20230201.mmdb'',
                ''/data/GeoLite2-City-maxmind_20230301.mmdb'',
                ''/data/GeoLite2-City-geonames_20230301.db'',
                ''/data/GeoLite2-City-maxmind_20230101.mmdb''],
      undeletable = []\<rparr>"

section \<open>Properties\<close>

subsection \<open>The metadata facade\<close>

lemma countries_loop_filter:
  "countries_loop acc rows = acc @ filter (\<lambda>c. CountryName c \<noteq> []) rows"
  by (induction rows arbitrary: acc) simp_all

lemma cities_loop_filter:
  "cities_loop acc rows = acc @ filter (\<lambda>c. CityName c \<noteq> []) rows"
  by (induction rows arbitrary: acc) simp_all

text \<open>
  C8. Whatever rows the metadata store returns, listing the countries and listing the
  cities of a country return the rows whose display name is not empty, in the store's
  order and unchanged: the result is the store's sequence filtered by that test.
\<close>

theorem facade_drops_unnamed_rows:
  "GetAllCountries (Inr countries) = Inr (filter (\<lambda>c. CountryName c \<noteq> []) countries)
   \<and> (store_query code = Inr cities \<longrightarrow>
        GetCitiesByCountry store_query code = Inr (filter (\<lambda>c. CityName c \<noteq> []) cities))"
  by (simp add: GetAllCountries_def GetCitiesByCountry_def countries_loop_filter
      cities_loop_filter)

theorem facade_drops_unnamed_rows_witness:
  "GetAllCountries
     (Inr [\<lparr>CountryISOCode = ''DE'', CountryName = ''Germany''\<rparr>,
           \<lparr>CountryISOCode = ''XX'', CountryName = []\<rparr>,
           \<lparr>CountryISOCode = ''NL'', CountryName = ''Netherlands''\<rparr>])
     = Inr [\<lparr>CountryISOCode = ''DE'', CountryName = ''Germany''\<rparr>,
            \<lparr>CountryISOCode = ''NL'', CountryName = ''Netherlands''\<rparr>]
   \<and> GetCitiesByCountry
         (\<lambda>code. Inr [\<lparr>GeoNameID = 1, CityName = []\<rparr>, \<lparr>GeoNameID = 2, CityName = ''Berlin''\<rparr>])
         ''DE''
       = Inr [\<lparr>GeoNameID = 2, CityName = ''Berlin''\<rparr>]"
  using facade_drops_unnamed_rows
    [of "[\<lparr>CountryISOCode = ''DE'', CountryName = ''Germany''\<rparr>,
          \<lparr>CountryISOCode = ''XX'', CountryName = []\<rparr>,
          \<lparr>CountryISOCode = ''NL'', CountryName = ''Netherlands''\<rparr>]"
        "\<lambda>code. Inr [\<lparr>GeoNameID = 1, CityName = []\<rparr>, \<lparr>GeoNameID = 2, CityName = ''Berlin''\<rparr>]"
        "''DE''"
        "[\<lparr>GeoNameID = 1, CityName = []\<rparr>, \<lparr>GeoNameID = 2, CityName = ''Berlin''\<rparr>]"]
  by simp

subsection \<open>Paths and sorted listings\<close>

lemma Split_append: "fst (Split p) @ snd (Split p) = p"
proof -
  let ?t = "takeWhile (\<lambda>c. c \<noteq> CHR ''/'') (rev p)"
  let ?d = "dropWhile (\<lambda>c. c \<noteq> CHR ''/'') (rev p)"
  have "rev p = ?t @ ?d" by simp
  then have p: "p = rev ?d @ rev ?t"
    by (metis rev_append rev_rev_ident)
  have "length p = length ?d + length ?t"
    using arg_cong [OF p, of length] by simp
  then have "take (length p - length ?t) p = rev ?d"
    using p by (metis add_diff_cancel_right' append_eq_conv_conj length_rev)
  then show ?thesis
    using p by (simp add: Split_def Let_def)
qed




subsection \<open>The versioned file selector\<close>





lemma SplitN2_first: "index_at (SplitN2 s sep) 0 = Returns (takeWhile (\<lambda>c. c \<noteq> sep) s)"
proof (cases "sep \<in> set s")
  case True
  then show ?thesis by (simp add: SplitN2_def index_at_def)
next
  case False
  then have tw: "takeWhile (\<lambda>c. c \<noteq> sep) s = s"
    by (intro takeWhile_eq_all_conv [THEN iffD2]) auto
  show ?thesis
    unfolding SplitN2_def index_at_def tw using False by simp
qed

lemma SplitN2_second:
  "index_at (SplitN2 s sep) (Suc 0) =
     (if sep \<in> set s then Returns (tl (dropWhile (\<lambda>c. c \<noteq> sep) s))
      else Panics IndexOutOfRange)"
  by (simp add: SplitN2_def index_at_def)

lemma getDatabaseFilename_remote:
  assumes "autoUpdate" and "getFilenameFromURL databaseURL = Inr filename"
  shows "getDatabaseFilename getFilenameFromURL databaseURL pattern autoUpdate fs =
     (if CHR ''_'' \<in> set (takeWhile (\<lambda>c. c \<noteq> CHR ''.'') filename)
      then Returns (Inr (Base (Replace1 pattern (CHR ''*'')
             (tl (dropWhile (\<lambda>c. c \<noteq> CHR ''_'') (takeWhile (\<lambda>c. c \<noteq> CHR ''.'') filename))))))
      else Panics IndexOutOfRange)"
  using assms by (simp add: getDatabaseFilename_def SplitN2_first SplitN2_second)




text \<open>
  C9. When remote discovery is requested and succeeds, and the remote name has an
  underscore before its first dot, the selector returns the base name of the pattern
  with its first \<open>*\<close> replaced by the date: the text after the first underscore of the
  part before the first dot. The directory is not consulted: any two file systems give
  the same name.
\<close>

theorem selector_remote_derivation:
  assumes "autoUpdate"
    and "getFilenameFromURL databaseURL = Inr filename"
    and "CHR ''_'' \<in> set (takeWhile (\<lambda>c. c \<noteq> CHR ''.'') filename)"
  shows "getDatabaseFilename getFilenameFromURL databaseURL pattern autoUpdate fs =
           Returns (Inr (Base (Replace1 pattern (CHR ''*'')
             (tl (dropWhile (\<lambda>c. c \<noteq> CHR ''_'') (takeWhile (\<lambda>c. c \<noteq> CHR ''.'') filename))))))
       \<and> getDatabaseFilename getFilenameFromURL databaseURL pattern autoUpdate fs =
           getDatabaseFilename getFilenameFromURL databaseURL pattern autoUpdate fs'"
  using assms by (simp add: getDatabaseFilename_remote)

text \<open>The name is derived in an empty directory.\<close>

theorem selector_remote_derivation_witness:
  "getDatabaseFilename (\<lambda>url. Inr ''GeoLite2-City_20240305.tar.gz'') ''geoLiteCityTarGZURL''
     ''/data/GeoLite2-City-maxmind_*.mmdb'' True (example_dir\<lparr>files := []\<rparr>)
     = Returns (Inr ''GeoLite2-City-maxmind_20240305.mmdb'')"
  using selector_remote_derivation [of True "\<lambda>url. Inr ''GeoLite2-City_20240305.tar.gz''"
      "''geoLiteCityTarGZURL''" "''GeoLite2-City_20240305.tar.gz''"
      "''/data/GeoLite2-City-maxmind_*.mmdb''" "example_dir\<lparr>files := []\<rparr>" example_dir]
  by (simp add: Replace1_def Base_def)

text \<open>
  C10. After a successful discovery the derivation indexes the second element of the
  underscore split without a length check: it panics with an index out of range exactly
  when the part of the remote name before its first dot has no underscore, and returns
  exactly when it has one.
\<close>

theorem selector_remote_panic:
  assumes "autoUpdate"
    and "getFilenameFromURL databaseURL = Inr filename"
  shows "(getDatabaseFilename getFilenameFromURL databaseURL pattern autoUpdate fs
            = Panics IndexOutOfRange
          \<longleftrightarrow> CHR ''_'' \<notin> set (takeWhile (\<lambda>c. c \<noteq> CHR ''.'') filename))
       \<and> ((\<exists>r. getDatabaseFilename getFilenameFromURL databaseURL pattern autoUpdate fs = Returns r)
          \<longleftrightarrow> CHR ''_'' \<in> set (takeWhile (\<lambda>c. c \<noteq> CHR ''.'') filename))"
  using assms by (simp add: getDatabaseFilename_remote)

text \<open>A remote name without a date panics; one with a date returns.\<close>

theorem selector_remote_panic_witness:
  "getDatabaseFilename (\<lambda>url. Inr ''GeoLite2-City.tar.gz'') ''geoLiteCityTarGZURL''
     ''/data/GeoLite2-City-maxmind_*.mmdb'' True example_dir = Panics IndexOutOfRange
   \<and> (\<exists>r. getDatabaseFilename (\<lambda>url. Inr ''GeoLite2-City_20240305.tar.gz'')
          ''geoLiteCityTarGZURL'' ''/data/GeoLite2-City-maxmind_*.mmdb'' True example_dir = Returns r)"
  using selector_remote_panic [of True "\<lambda>url. Inr ''GeoLite2-City.tar.gz''"
      "''geoLiteCityTarGZURL''" "''GeoLite2-City.tar.gz''"
      "''/data/GeoLite2-City-maxmind_*.mmdb''" example_dir]
    selector_remote_panic [of True "\<lambda>url. Inr ''GeoLite2-City_20240305.tar.gz''"
      "''geoLiteCityTarGZURL''" "''GeoLite2-City_20240305.tar.gz''"
      "''/data/GeoLite2-City-maxmind_*.mmdb''" example_dir]
  by simp

subsection \<open>The stale file reaper\<close>








subsection \<open>Reload, lookup and stop\<close>

lemmas service_defs = tick_def reload_def openDB_def reader_Close_def Lookup_def deref_def
  reader_Lookup_def Stop_def

lemmas example_defs = example_service_def example_tick_def example_stop_def example_closed_def
  example_stopped_def zero_Record_def

lemma reloader_single_tick: "reloader [TimerFired io] gl = tick io gl"
  by (simp split: outcome.splits)

lemma length_reader_Close: "length (reader_Close h rs) = length rs"
  by (simp add: reader_Close_def)

lemma reader_Close_closed: "h < length rs \<Longrightarrow> rd_closed (reader_Close h rs ! h)"
  by (simp add: reader_Close_def)

lemma Lookup_closed:
  assumes "db gl = Some h" and "h < length (readers gl)" and "rd_closed (readers gl ! h)"
  shows "Lookup gl ip = (Returns (Inl ClosedDatabase), [EvRLock, EvReaderLookup h, EvRUnlock])"
  using assms by (simp add: Lookup_def deref_def reader_Lookup_def)

text \<open>
  \<^verbatim>\<open>reload\<close> closes the active reader before it opens the new one. When the open
  fails, the service keeps its pointer to the reader it has just closed, and every
  lookup returns the closed reader's error.
\<close>

lemma reload_failure_closes_reader:
  assumes "db gl = Some h" and "h < length (readers gl)"
    and "stable_change io gl" and "io_close io = None"
    and "io_stat io \<noteq> StatOk \<or> isl (io_open io)"
  shows "\<exists>evs. tick io gl = Returns (gl\<lparr>readers := reader_Close h (readers gl)\<rparr>, evs)"
    and "Lookup (gl\<lparr>readers := reader_Close h (readers gl)\<rparr>) ip =
           (Returns (Inl ClosedDatabase), [EvRLock, EvReaderLookup h, EvRUnlock])"
proof -
  show "\<exists>evs. tick io gl = Returns (gl\<lparr>readers := reader_Close h (readers gl)\<rparr>, evs)"
    using assms
    by (auto simp: tick_def reload_def openDB_def Let_def stable_change_def
        split: sum.splits option.splits stat_result.splits)
  show "Lookup (gl\<lparr>readers := reader_Close h (readers gl)\<rparr>) ip =
           (Returns (Inl ClosedDatabase), [EvRLock, EvReaderLookup h, EvRUnlock])"
    using assms(1,2)
    by (intro Lookup_closed) (simp_all add: length_reader_Close reader_Close_closed)
qed

text \<open>
  C1. The property that a failed open leaves the previous handle open and serving does
  not hold of \<^verbatim>\<open>reload\<close>. On the example service the file changes to stable content
  that \<^verbatim>\<open>maxminddb.Open\<close> rejects: the pointer and the recorded fingerprint are
  unchanged, but the reader they belong to is closed, and the lookup that succeeded
  before the tick now fails.
\<close>

theorem reload_open_failure_example:
  "tick (example_tick\<lparr>io_open := Inl (OSError ''invalid MaxMind DB file'')\<rparr>) example_service =
     Returns (example_closed,
       [EvStoreReload, EvHash (mmdbPath example_service), EvSleep, EvHash (mmdbPath example_service),
        EvLock, EvLog, EvReaderClose 0, EvStat (mmdbPath example_service),
        EvOpen (mmdbPath example_service), EvUnlock, EvLog])
   \<and> Lookup example_service [10, 0, 0, 1]
       = (Returns (Inr (zero_Record\<lparr>Country_ISOCode := ''DE''\<rparr>)),
          [EvRLock, EvReaderLookup 0, EvRUnlock])
   \<and> Lookup example_closed [10, 0, 0, 1]
       = (Returns (Inl ClosedDatabase), [EvRLock, EvReaderLookup 0, EvRUnlock])
   \<and> db example_closed = db example_service
   \<and> sha256sum example_closed = sha256sum example_service"
  by (simp add: service_defs example_defs)

lemma Stop_running:
  assumes "stopCh gl = ChanOpen"
  shows "\<exists>err gl'. Stop io gl = Returns (err, gl') \<and> stopCh gl' = ChanClosed
           \<and> db gl' = db gl \<and> length (readers gl') = length (readers gl)
           \<and> (\<forall>h. db gl = Some h \<and> h < length (readers gl) \<longrightarrow> rd_closed (readers gl' ! h))"
  using assms
  by (auto simp: Stop_def Let_def reader_Close_def split: option.splits)

text \<open>
  C2. \<^verbatim>\<open>Stop\<close> closes the stop channel with no guard. The first call on a running
  service returns and leaves the channel closed; a second call on that service panics
  with a close of a closed channel, whatever its close calls would return. Stopping is
  not idempotent.
\<close>

theorem stop_twice_panics:
  assumes "stopCh gl = ChanOpen"
  shows "\<exists>err gl'. Stop io gl = Returns (err, gl') \<and> stopCh gl' = ChanClosed
           \<and> Stop io' gl' = Panics CloseOfClosedChannel"
proof -
  from Stop_running [OF assms, of io] obtain err gl'
    where ret: "Stop io gl = Returns (err, gl')" and closed: "stopCh gl' = ChanClosed"
    by blast
  have "Stop io' gl' = Panics CloseOfClosedChannel"
    using closed by (simp add: Stop_def)
  with ret closed show ?thesis by blast
qed

text \<open>The example service is stopped once and then panics.\<close>

theorem stop_twice_panics_witness:
  "\<exists>err gl'. Stop example_stop example_service = Returns (err, gl') \<and> stopCh gl' = ChanClosed
     \<and> Stop example_stop gl' = Panics CloseOfClosedChannel"
proof -
  have "stopCh example_service = ChanOpen"
    by (simp add: example_service_def)
  then show ?thesis by (rule stop_twice_panics)
qed

text \<open>The second call is not a no-op: it panics.\<close>

theorem stop_second_call_counterexample:
  "Stop example_stop example_service = Returns (None, example_stopped)
   \<and> Stop example_stop example_stopped = Panics CloseOfClosedChannel"
  by (simp add: service_defs example_defs)




text \<open>
  C4. In every tick the two fingerprint computations and the delay between them happen
  outside the writer lock, and a tick without a stable change never takes it. The locked
  region of a reload holds the close of the old reader, then \<^verbatim>\<open>openDB\<close> (the stat
  and the open of the file), then the replacement of the pointer and of the fingerprint;
  nothing else but logging happens under the lock.
\<close>

theorem reload_lock_region:
  assumes "db gl = Some h"
  shows "\<exists>gl' evs. tick io gl = Returns (gl', evs)
     \<and> (\<forall>p. EvHash p \<notin> set (locked_events False evs))
     \<and> EvSleep \<notin> set (locked_events False evs)
     \<and> set (locked_events False evs) \<subseteq>
          {EvLog, EvReaderClose h, EvStat (mmdbPath gl), EvOpen (mmdbPath gl), EvSetDB, EvSetSum}
     \<and> (\<not> stable_change io gl \<longrightarrow> locked_events False evs = [])
     \<and> (stable_change io gl \<longrightarrow> EvReaderClose h \<in> set (locked_events False evs))
     \<and> (stable_change io gl \<and> io_close io = None \<longrightarrow>
          EvStat (mmdbPath gl) \<in> set (locked_events False evs))
     \<and> (stable_change io gl \<and> io_close io = None \<and> io_stat io = StatOk \<longrightarrow>
          EvOpen (mmdbPath gl) \<in> set (locked_events False evs))
     \<and> (stable_change io gl \<and> io_close io = None \<and> io_stat io = StatOk \<and> \<not> isl (io_open io) \<longrightarrow>
          locked_events False evs =
            [EvLog, EvReaderClose h, EvStat (mmdbPath gl), EvOpen (mmdbPath gl),
             EvSetDB, EvSetSum, EvLog])"
  using assms
  by (auto simp: tick_def reload_def openDB_def Let_def stable_change_def
      split: sum.splits option.splits stat_result.splits)

text \<open>A tick of the example service that reloads.\<close>

theorem reload_lock_region_witness:
  "\<exists>gl' evs. tick example_tick example_service = Returns (gl', evs)
     \<and> EvReaderClose 0 \<in> set (locked_events False evs)
     \<and> EvStat (mmdbPath example_service) \<in> set (locked_events False evs)
     \<and> EvOpen (mmdbPath example_service) \<in> set (locked_events False evs)
     \<and> EvSetDB \<in> set (locked_events False evs)
     \<and> EvHash (mmdbPath example_service) \<notin> set (locked_events False evs)"
proof -
  have "db example_service = Some 0"
    by (simp add: example_service_def)
  from reload_lock_region [OF this, of example_tick] show ?thesis
    by (elim exE conjE) (simp add: stable_change_def example_service_def example_tick_def)
qed

text \<open>The stat and the open of the new file happen while the lock is held.\<close>

theorem open_inside_lock_counterexample:
  "tick example_tick example_service =
     Returns (example_closed
                \<lparr>sha256sum := [2], db := Some 1,
                 readers := readers example_closed
                   @ [\<lparr>rd_closed = False,
                       rd_data = [([10, 0, 0, 1], zero_Record\<lparr>Country_ISOCode := ''NL''\<rparr>)]\<rparr>]\<rparr>,
       [EvStoreReload, EvHash (mmdbPath example_service), EvSleep, EvHash (mmdbPath example_service),
        EvLock, EvLog, EvReaderClose 0, EvStat (mmdbPath example_service),
        EvOpen (mmdbPath example_service), EvSetDB, EvSetSum, EvLog, EvUnlock])
   \<and> filter file_io (locked_events False
       [EvStoreReload, EvHash (mmdbPath example_service), EvSleep, EvHash (mmdbPath example_service),
        EvLock, EvLog, EvReaderClose 0, EvStat (mmdbPath example_service),
        EvOpen (mmdbPath example_service), EvSetDB, EvSetSum, EvLog, EvUnlock])
     = [EvStat (mmdbPath example_service), EvOpen (mmdbPath example_service)]"
  by (simp add: service_defs example_defs)

text \<open>
  C5. On each tick a reload is attempted exactly when the change is stable: the first
  fingerprint was computed and differs from the recorded one, and the second was
  computed and equals the first. The pointer is replaced, and the new fingerprint
  recorded, exactly when in addition the close of the old reader, the stat and the open
  all succeed. An unchanged first fingerprint leaves the service as it was, and after
  that one hash the tick only writes a log line; two computed fingerprints that differ
  leave the service as it was.
\<close>

theorem tick_swap_condition:
  assumes "db gl = Some h" and "h < length (readers gl)"
  shows "\<exists>gl' evs. tick io gl = Returns (gl', evs)
     \<and> (EvLock \<in> set evs \<longleftrightarrow> stable_change io gl)
     \<and> (db gl' \<noteq> db gl \<longleftrightarrow>
          stable_change io gl \<and> io_close io = None \<and> io_stat io = StatOk \<and> \<not> isl (io_open io))
     \<and> (sha256sum gl' \<noteq> sha256sum gl \<longleftrightarrow>
          stable_change io gl \<and> io_close io = None \<and> io_stat io = StatOk \<and> \<not> isl (io_open io))
     \<and> (io_sha1 io = Inr (sha256sum gl) \<longrightarrow>
          gl' = gl
          \<and> dropWhile (\<lambda>e. e \<noteq> EvHash (mmdbPath gl)) evs = [EvHash (mmdbPath gl), EvLog])
     \<and> (\<not> isl (io_sha1 io) \<and> \<not> isl (io_sha2 io) \<and> io_sha1 io \<noteq> io_sha2 io \<longrightarrow> gl' = gl)"
  using assms
  by (auto simp: tick_def reload_def openDB_def Let_def stable_change_def length_reader_Close
      split: sum.splits option.splits stat_result.splits)

text \<open>A tick of the example service that swaps.\<close>

theorem tick_swap_condition_witness:
  "\<exists>gl' evs. tick example_tick example_service = Returns (gl', evs)
     \<and> EvLock \<in> set evs \<and> db gl' \<noteq> db example_service
     \<and> sha256sum gl' \<noteq> sha256sum example_service"
proof -
  have "db example_service = Some 0" and "0 < length (readers example_service)"
    by (simp_all add: example_service_def)
  from tick_swap_condition [OF this, of example_tick] show ?thesis
    by (elim exE conjE) (simp add: stable_change_def example_service_def example_tick_def)
qed

text \<open>A stable change whose file has vanished by the time of the stat: no swap.\<close>

theorem stable_change_without_swap_counterexample:
  "io_sha1 (example_tick\<lparr>io_stat := StatNotExist\<rparr>) = Inr [2]
   \<and> io_sha2 (example_tick\<lparr>io_stat := StatNotExist\<rparr>) = Inr [2]
   \<and> sha256sum example_service = [1]
   \<and> tick (example_tick\<lparr>io_stat := StatNotExist\<rparr>) example_service =
       Returns (example_closed,
         [EvStoreReload, EvHash (mmdbPath example_service), EvSleep,
          EvHash (mmdbPath example_service), EvLock, EvLog, EvReaderClose 0,
          EvStat (mmdbPath example_service), EvUnlock, EvLog])
   \<and> db example_closed = db example_service"
  by (simp add: service_defs example_defs)

end
